theory Spec2Isabelle
  imports Complex_Main "HOL-Library.RBT"
begin

section \<open>Outcomes of C++ calls\<close>

text \<open>
  The exceptions that the sources name: \<open>DataPointException(code)\<close> of datapoint.hpp,
  \<open>TimeSeriesException(message)\<close> of timeseries.hpp, and the two standard exceptions
  that the library calls used by the sources can raise.
\<close>

datatype exn =
    DataPointException nat
  | TimeSeriesException string
  | out_of_range
  | bad_alloc

text \<open>
  A call returns a value, leaves by an exception, or has no defined behaviour at all
  (dereferencing a past-the-end iterator, a conversion whose result does not fit).
\<close>

datatype 'a outcome = Value 'a | Throws exn | Undefined

definition throws :: "'a outcome \<Rightarrow> bool" where
  "throws r = (case r of Throws e \<Rightarrow> True | _ \<Rightarrow> False)"

text \<open>Sequencing: the first call that does not return a value ends the computation.\<close>

definition bind :: "'a outcome \<Rightarrow> ('a \<Rightarrow> 'b outcome) \<Rightarrow> 'b outcome" where
  "bind r k = (case r of Value v \<Rightarrow> k v | Throws e \<Rightarrow> Throws e | Undefined \<Rightarrow> Undefined)"

section \<open>Time\<close>

text \<open>
  \<open>time_t\<close> counts seconds since the epoch; the container stores, copies and compares
  timestamps, and the integers model them. A \<open>bpt::time_duration\<close> and a \<open>bpt::ptime\<close>
  hold a 64-bit count of ticks (microseconds), for a \<open>ptime\<close> counted from the epoch
  here. \<open>bpt::from_time_t(t)\<close> is the epoch plus \<open>seconds(t)\<close>: the seconds are
  multiplied by the ticks per second in 64 bits, and the product wraps around when it
  does not fit. Boost supports the times from 1400-01-01 00:00:00 to 9999-12-31 23:59:59:
  for timestamps in that range nothing wraps.
\<close>

type_synonym time_t = int
type_synonym ptime = int
type_synonym time_duration = int

definition ticks_per_second :: int where
  "ticks_per_second = 1000000"

definition wrap64 :: "int \<Rightarrow> int" where
  "wrap64 x = (x + 2 ^ 63) mod 2 ^ 64 - 2 ^ 63"

definition from_time_t :: "time_t \<Rightarrow> ptime" where
  "from_time_t t = wrap64 (t * ticks_per_second)"

definition ptime_supported :: "time_t \<Rightarrow> bool" where
  "ptime_supported t = (- 17987443200 \<le> t \<and> t \<le> 253402300799)"

definition seconds :: "int \<Rightarrow> time_duration" where
  "seconds n = n * ticks_per_second"

definition default_time_duration :: time_duration where
  "default_time_duration = 0"

section \<open>The map of timestamps to records\<close>

text \<open>
  \<open>typedef std::map<time_t,T> TimeMap\<close>. The standard map is an ordered tree with one
  entry per key; it is modelled by the red-black trees of the library, whose in-order
  entries are what the map's iterators run through.
\<close>

type_synonym 'a TimeMap = "(time_t, 'a) rbt"

text \<open>\<open>std::map::insert\<close> and \<open>emplace\<close>: nothing is stored when the key is there already;
  the second component says whether the entry was inserted.\<close>

definition map_insert :: "time_t \<times> 'a \<Rightarrow> 'a TimeMap \<Rightarrow> 'a TimeMap \<times> bool" where
  "map_insert val m =
     (case RBT.lookup m (fst val) of
        Some old \<Rightarrow> (m, False)
      | None \<Rightarrow> (RBT.insert (fst val) (snd val) m, True))"

text \<open>\<open>std::map::at\<close>: the mapped value, or \<open>std::out_of_range\<close>.\<close>

definition map_at :: "'a TimeMap \<Rightarrow> time_t \<Rightarrow> 'a outcome" where
  "map_at m k = (case RBT.lookup m k of Some v \<Rightarrow> Value v | None \<Rightarrow> Throws out_of_range)"

definition map_size :: "'a TimeMap \<Rightarrow> nat" where
  "map_size m = length (RBT.entries m)"

text \<open>
  An iterator of the map is modelled by the entries from its position to the end, in key
  order: \<open>end()\<close> is the empty list, \<open>++\<close> drops the head, \<open>*\<close> reads the head. Two
  iterators of one map are equal when they stand at the same position, and since keys are
  unique that is equality of the remaining entries. A reverse iterator runs through the
  reversed entries.
\<close>

type_synonym 'a iterator = "(time_t \<times> 'a) list"

definition map_begin :: "'a TimeMap \<Rightarrow> 'a iterator" where
  "map_begin m = RBT.entries m"

definition map_end :: "'a TimeMap \<Rightarrow> 'a iterator" where
  "map_end m = []"

definition map_rbegin :: "'a TimeMap \<Rightarrow> 'a iterator" where
  "map_rbegin m = rev (RBT.entries m)"

definition deref :: "'a iterator \<Rightarrow> (time_t \<times> 'a) outcome" where
  "deref it = (case it of [] \<Rightarrow> Undefined | p # rest \<Rightarrow> Value p)"

section \<open>timeseries.hpp: the TimeSeries template\<close>

text \<open>
  The data members \<open>_data\<close>, \<open>_meta\<close> and \<open>_isLoaded\<close>. The two memberspaces \<open>values\<close>
  and \<open>timestamps\<close> hold nothing but the reference \<open>owner\<close>, which every constructor
  binds to \<open>*this\<close> and which no assignment can rebind: they are functions of the object
  that contains them.
\<close>

record 'a TimeSeries =
  m_data :: "'a TimeMap"
  m_meta :: string
  m_isLoaded :: bool

text \<open>The default constructor, \<open>TimeSeries(const std::string& meta = "")\<close>.\<close>

definition TimeSeries_default :: "string \<Rightarrow> 'a TimeSeries" where
  "TimeSeries_default meta = \<lparr> m_data = RBT.empty, m_meta = meta, m_isLoaded = False \<rparr>"

text \<open>
  The three overloads of \<open>insert\<close> (a pair by reference, a pair by rvalue, a timestamp and
  a record by rvalue) all return the flag of the map's insertion; the object is passed
  in and returned.
\<close>

definition insert_ts :: "time_t \<times> 'a \<Rightarrow> 'a TimeSeries \<Rightarrow> bool \<times> 'a TimeSeries" where
  "insert_ts val ts =
     (let r = map_insert val (m_data ts) in (snd r, ts\<lparr> m_data := fst r \<rparr>))"

text \<open>A loader's sequence of insertions, with the flags returned.\<close>

fun inserts :: "(time_t \<times> 'a) list \<Rightarrow> 'a TimeSeries \<Rightarrow> bool list \<times> 'a TimeSeries" where
  "inserts [] ts = ([], ts)"
| "inserts (val # vals) ts =
     (let r = insert_ts val ts; rs = inserts vals (snd r) in (fst r # fst rs, snd rs))"

definition begin_ts :: "'a TimeSeries \<Rightarrow> 'a iterator" where
  "begin_ts ts = map_begin (m_data ts)"

definition end_ts :: "'a TimeSeries \<Rightarrow> 'a iterator" where
  "end_ts ts = map_end (m_data ts)"

definition cbegin :: "'a TimeSeries \<Rightarrow> 'a iterator" where
  "cbegin ts = map_begin (m_data ts)"

definition cend :: "'a TimeSeries \<Rightarrow> 'a iterator" where
  "cend ts = map_end (m_data ts)"

definition isLoaded :: "'a TimeSeries \<Rightarrow> bool" where
  "isLoaded ts = m_isLoaded ts"

definition isEmpty :: "'a TimeSeries \<Rightarrow> bool" where
  "isEmpty ts = (map_size (m_data ts) = 0)"

definition size_ts :: "'a TimeSeries \<Rightarrow> nat" where
  "size_ts ts = map_size (m_data ts)"

definition clear :: "'a TimeSeries \<Rightarrow> 'a TimeSeries" where
  "clear ts = ts\<lparr> m_data := RBT.empty \<rparr>"

definition meta :: "'a TimeSeries \<Rightarrow> string" where
  "meta ts = m_meta ts"

text \<open>
  \<open>first()\<close> reads \<open>_data.begin()->first\<close> with no test; \<open>last()\<close> does the same when
  \<open>size()\<close> is zero and reads \<open>_data.rbegin()->first\<close> otherwise.
\<close>

definition first :: "'a TimeSeries \<Rightarrow> ptime outcome" where
  "first ts = map_outcome (\<lambda>p. from_time_t (fst p)) (deref (map_begin (m_data ts)))"

definition last_ts :: "'a TimeSeries \<Rightarrow> ptime outcome" where
  "last_ts ts =
     (if size_ts ts = 0
      then map_outcome (\<lambda>p. from_time_t (fst p)) (deref (map_begin (m_data ts)))
      else map_outcome (\<lambda>p. from_time_t (fst p)) (deref (map_rbegin (m_data ts))))"

text \<open>\<open>get_timestamps()\<close> copies the keys of the map into a new vector, returned by value.\<close>

definition get_timestamps :: "'a TimeSeries \<Rightarrow> time_t list" where
  "get_timestamps ts = map fst (RBT.entries (m_data ts))"

text \<open>
  \<open>on(tm)\<close> has no model: its statement \<open>return _data.at(tm);\<close> hands a reference to
  a record to a function declared to return a \<open>const_iterator\<close>. The map has no such
  conversion, so the member cannot be instantiated, and nothing in the sources calls it.
\<close>

text \<open>\<open>operator[]\<close> returns \<open>_data.at(k)\<close> and is commented "throws".\<close>

definition subscript :: "'a TimeSeries \<Rightarrow> time_t \<Rightarrow> 'a outcome" where
  "subscript ts k = map_at (m_data ts) k"

subsection \<open>The memberspaces values and timestamps\<close>

text \<open>
  Both memberspaces hand out \<open>boost::transform_iterator\<close>s over the iterators of the
  owner's map: such an iterator stands where its base iterator stands, and dereferencing
  it returns what the functor returns for the entry, here a reference. It is modelled
  by its base iterator; the functor is given to the loop that reads through it.

  A reference designates storage of an entry of the map, or storage of a temporary. The
  functors \<open>getDataPoint\<close> and \<open>getTimeStamp\<close> take a
  \<open>const std::pair<time_t, T>&\<close>, whereas an entry of the map is a
  \<open>std::pair<const time_t, T>\<close>: the argument is a temporary pair converted from the
  entry, and the functor returns a reference to a member of that temporary. The
  temporary is destroyed when the dereference returns, so reading through the reference
  has no defined behaviour.
\<close>

datatype 'a reference = To_entry 'a | To_temporary 'a

definition read :: "'a reference \<Rightarrow> 'a outcome" where
  "read r = (case r of To_entry v \<Rightarrow> Value v | To_temporary v \<Rightarrow> Undefined)"

definition getDataPoint :: "time_t \<times> 'a \<Rightarrow> 'a reference" where
  "getDataPoint p = (let tmp = (fst p, snd p) in To_temporary (snd tmp))"

definition getTimeStamp :: "time_t \<times> 'a \<Rightarrow> time_t reference" where
  "getTimeStamp p = (let tmp = (fst p, snd p) in To_temporary (fst tmp))"

definition Values_begin :: "'a TimeSeries \<Rightarrow> 'a iterator" where
  "Values_begin owner = begin_ts owner"

definition Values_end :: "'a TimeSeries \<Rightarrow> 'a iterator" where
  "Values_end owner = end_ts owner"

definition TimeStamps_begin :: "'a TimeSeries \<Rightarrow> 'a iterator" where
  "TimeStamps_begin owner = map_begin (m_data owner)"

definition TimeStamps_end :: "'a TimeSeries \<Rightarrow> 'a iterator" where
  "TimeStamps_end owner = map_end (m_data owner)"

text \<open>
  A full traversal, as main.cpp runs them through \<open>std::copy\<close> and \<open>std::transform\<close>:
  \<open>for (it = start; it != stop; ++it) out.push_back(f(*it))\<close>, where each element is
  read through the reference that the dereference gives. Stepping an iterator that has
  reached the end of the map without meeting \<open>stop\<close> is undefined.
\<close>

fun traverse ::
  "(time_t \<times> 'a \<Rightarrow> 'b reference) \<Rightarrow> 'a iterator \<Rightarrow> 'a iterator \<Rightarrow> 'b list outcome" where
  "traverse f [] stop = (if [] = stop then Value [] else Undefined)"
| "traverse f (p # it) stop =
     (if p # it = stop then Value []
      else bind (read (f p)) (\<lambda>x. map_outcome ((#) x) (traverse f it stop)))"

text \<open>
  The traversals of the two views. \<open>begin()\<close> and \<open>end()\<close> of the memberspaces are not
  const members, so the owner is passed in and returned.
\<close>

definition Values_traverse :: "'a TimeSeries \<Rightarrow> 'a list outcome \<times> 'a TimeSeries" where
  "Values_traverse ts = (traverse getDataPoint (Values_begin ts) (Values_end ts), ts)"

definition TimeStamps_traverse :: "'a TimeSeries \<Rightarrow> time_t list outcome \<times> 'a TimeSeries" where
  "TimeStamps_traverse ts = (traverse getTimeStamp (TimeStamps_begin ts) (TimeStamps_end ts), ts)"

section \<open>datapoint.hpp and datapoint.cpp: the record schemas\<close>

text \<open>
  A \<open>double\<close> is modelled by a real number: the records only store and copy these
  values. Converting a \<open>double\<close> to the 32-bit \<open>int\<close> of \<open>OHLCV::volume\<close> drops the
  fraction, and is undefined when the result does not fit.
\<close>

type_synonym double = real

definition trunc_double :: "double \<Rightarrow> int" where
  "trunc_double x = (if 0 \<le> x then \<lfloor>x\<rfloor> else \<lceil>x\<rceil>)"

definition fits_int :: "int \<Rightarrow> bool" where
  "fits_int n = (- (2 ^ 31) \<le> n \<and> n < 2 ^ 31)"

definition double_to_int :: "double \<Rightarrow> int outcome" where
  "double_to_int x = (if fits_int (trunc_double x) then Value (trunc_double x) else Undefined)"

text \<open>\<open>std::vector::at\<close>: the element, or \<open>std::out_of_range\<close>.\<close>

definition vector_at :: "'a list \<Rightarrow> nat \<Rightarrow> 'a outcome" where
  "vector_at v i = (if i < length v then Value (v ! i) else Throws out_of_range)"

text \<open>The handler of the constructors' function-try-blocks:
  \<open>catch (std::out_of_range& e) { throw DataPointException(1000); }\<close>.\<close>

definition catch_out_of_range :: "'a outcome \<Rightarrow> 'a outcome" where
  "catch_out_of_range r =
     (case r of
        Throws e \<Rightarrow> (if e = out_of_range then Throws (DataPointException 1000) else Throws e)
      | Value v \<Rightarrow> Value v
      | Undefined \<Rightarrow> Undefined)"

record OHLC =
  "open" :: double
  high :: double
  low :: double
  close :: double

record OHLCV =
  volume :: int
  v_open :: double
  v_high :: double
  v_low :: double
  v_close :: double

record BidAsk =
  bid :: double
  ask :: double

text \<open>
  The constructors from \<open>std::vector<double>\<close>. Members are initialised in the order of
  their declaration: for \<open>OHLCV\<close> that is \<open>volume\<close> first. The fields of \<open>OHLCV\<close> carry
  the prefix \<open>v_\<close> to keep them apart from those of \<open>OHLC\<close>.
\<close>

definition OHLC_init :: "double list \<Rightarrow> OHLC outcome" where
  "OHLC_init init = catch_out_of_range
     (bind (vector_at init 0) (\<lambda>op.
      bind (vector_at init 1) (\<lambda>hi.
      bind (vector_at init 2) (\<lambda>lo.
      bind (vector_at init 3) (\<lambda>cl.
      Value \<lparr> open = op, high = hi, low = lo, close = cl \<rparr>)))))"

definition OHLCV_init :: "double list \<Rightarrow> OHLCV outcome" where
  "OHLCV_init init = catch_out_of_range
     (bind (vector_at init 4) (\<lambda>x.
      bind (double_to_int x) (\<lambda>v.
      bind (vector_at init 0) (\<lambda>op.
      bind (vector_at init 1) (\<lambda>hi.
      bind (vector_at init 2) (\<lambda>lo.
      bind (vector_at init 3) (\<lambda>cl.
      Value \<lparr> volume = v, v_open = op, v_high = hi, v_low = lo, v_close = cl \<rparr>)))))))"

definition BidAsk_init :: "double list \<Rightarrow> BidAsk outcome" where
  "BidAsk_init init = catch_out_of_range
     (bind (vector_at init 0) (\<lambda>b.
      bind (vector_at init 1) (\<lambda>a.
      Value \<lparr> bid = b, ask = a \<rparr>)))"

text \<open>
  \<open>dp_names<T>()\<close>: the generic template and its three specialisations. The template
  argument is passed as a value: one of the three schemas, or another struct derived from
  \<open>DataPoint\<close> (which is what the static assertion asks of \<open>T\<close>), given by its name.
\<close>

datatype dp_type = OHLC_type | OHLCV_type | BidAsk_type | Derived_type string

fun dp_names :: "dp_type \<Rightarrow> string list" where
  "dp_names OHLC_type = [''open'', ''high'', ''low'', ''close'']"
| "dp_names OHLCV_type = [''open'', ''high'', ''low'', ''close'', ''volume'']"
| "dp_names BidAsk_type = [''bid'', ''ask'']"
| "dp_names (Derived_type n) = ['''']"

text \<open>\<open>TimeSeries<T>::column_names()\<close> returns \<open>dp::dp_names<T>()\<close>.\<close>

definition column_names :: "dp_type \<Rightarrow> 'a TimeSeries \<Rightarrow> string list" where
  "column_names T ts = dp_names T"

section \<open>archive/timeseries_poly: the earlier TimeSeries class\<close>

record TimeSeries_poly =
  p_data :: "(time_t, double) rbt"
  p_frequency :: time_t
  p_meta :: string
  p_columns :: "string list"
  p_isLoaded :: bool

text \<open>
  \<open>TimeSeries::frequency()\<close> of archive/timeseries_poly.cpp is
  \<open>return bpt::time_duration();\<close>. (archive/timeseries_template.hpp declares a
  \<open>frequency()\<close> too, with a body of comments and no return statement; the template of
  lib/timeseries.hpp has the member commented out.)
\<close>

definition frequency :: "TimeSeries_poly \<Rightarrow> time_duration outcome" where
  "frequency ts = Value default_time_duration"

definition timestamps_poly :: "TimeSeries_poly \<Rightarrow> time_t list" where
  "timestamps_poly ts = map fst (RBT.entries (p_data ts))"

section \<open>timeseries.hpp: construction, assignment and swap\<close>

text \<open>
  Copying a map or a string allocates, and the copy leaves by \<open>std::bad_alloc\<close> when the
  allocation fails; this is what the comments "strong exception safety" and "basic
  exception safety" at \<open>assign\<close> and \<open>operator=\<close> are about. The state of the allocator
  is an argument of the copying operations: there is enough memory, or the copy of a
  string fails, or the copy of a map fails. A failed copy assignment of a map leaves
  its target valid but not specified: the map it leaves is carried by the failure.
  A failed assignment of a string leaves its target as it was. Moving and swapping
  allocate nothing. Outside this section allocations are taken to succeed.
\<close>

datatype 'a alloc = Enough | No_string | No_map "'a TimeMap"

definition string_copy :: "'a alloc \<Rightarrow> string \<Rightarrow> string outcome" where
  "string_copy a s = (case a of No_string \<Rightarrow> Throws bad_alloc | _ \<Rightarrow> Value s)"

definition map_copy :: "'a alloc \<Rightarrow> 'a TimeMap \<Rightarrow> 'a TimeMap outcome" where
  "map_copy a m = (case a of No_map left \<Rightarrow> Throws bad_alloc | _ \<Rightarrow> Value m)"

text \<open>\<open>target = source\<close> for strings and for maps: the outcome and the target afterwards.\<close>

definition string_assign :: "'a alloc \<Rightarrow> string \<Rightarrow> string \<Rightarrow> unit outcome \<times> string" where
  "string_assign a target source =
     (case a of No_string \<Rightarrow> (Throws bad_alloc, target) | _ \<Rightarrow> (Value (), source))"

definition map_assign :: "'a alloc \<Rightarrow> 'a TimeMap \<Rightarrow> 'a TimeMap \<Rightarrow> unit outcome \<times> 'a TimeMap" where
  "map_assign a target source =
     (case a of No_map left \<Rightarrow> (Throws bad_alloc, left) | _ \<Rightarrow> (Value (), source))"

text \<open>
  What \<open>std::move\<close> leaves behind: the standard libraries hand the tree of a map and the
  buffer of a string over to the target and leave the source empty.
\<close>

definition moved_from_map :: "'a TimeMap" where
  "moved_from_map = RBT.empty"

definition moved_from_string :: string where
  "moved_from_string = []"

text \<open>
  The copy constructor builds a new object, members in the order of their declaration
  (\<open>_data\<close>, \<open>_meta\<close>, \<open>_isLoaded\<close>); when a copy throws there is no new object.
\<close>

definition TimeSeries_copy :: "'a alloc \<Rightarrow> 'a TimeSeries \<Rightarrow> 'a TimeSeries outcome" where
  "TimeSeries_copy a ts =
     bind (map_copy a (m_data ts)) (\<lambda>d.
     bind (string_copy a (m_meta ts)) (\<lambda>s.
     Value \<lparr> m_data = d, m_meta = s, m_isLoaded = m_isLoaded ts \<rparr>))"

text \<open>The move constructor: the new object, and the source as it is left.\<close>

definition TimeSeries_move :: "'a TimeSeries \<Rightarrow> 'a TimeSeries \<times> 'a TimeSeries" where
  "TimeSeries_move ts =
     (let new = \<lparr> m_data = m_data ts, m_meta = m_meta ts, m_isLoaded = m_isLoaded ts \<rparr>;
          ts1 = ts\<lparr> m_data := moved_from_map, m_meta := moved_from_string \<rparr>;
          ts2 = ts1\<lparr> m_isLoaded := False \<rparr>
      in (new, ts2))"

text \<open>
  Assignment and swap take references, which may name the same object (the sources test
  \<open>this != &rhs\<close>). Objects live in a store, at addresses.
\<close>

type_synonym addr = nat
type_synonym 'a store = "addr \<Rightarrow> 'a TimeSeries"

text \<open>\<open>friend void swap(TimeSeries<T>& ts1, TimeSeries<T>& ts2)\<close>: three swaps of members.\<close>

definition swap :: "addr \<Rightarrow> addr \<Rightarrow> 'a store \<Rightarrow> 'a store" where
  "swap ts1 ts2 h =
     (let h1 = h(ts1 := (h ts1)\<lparr> m_isLoaded := m_isLoaded (h ts2) \<rparr>,
                 ts2 := (h ts2)\<lparr> m_isLoaded := m_isLoaded (h ts1) \<rparr>);
          h2 = h1(ts1 := (h1 ts1)\<lparr> m_meta := m_meta (h1 ts2) \<rparr>,
                  ts2 := (h1 ts2)\<lparr> m_meta := m_meta (h1 ts1) \<rparr>);
          h3 = h2(ts1 := (h2 ts1)\<lparr> m_data := m_data (h2 ts2) \<rparr>,
                  ts2 := (h2 ts2)\<lparr> m_data := m_data (h2 ts1) \<rparr>)
      in h3)"

text \<open>
  \<open>TimeSeries& assign(TimeSeries rhs)\<close>: the body swaps \<open>*this\<close> with the parameter.
  The parameter is an object of its own, initialised by the caller before the body runs:
  \<open>call_assign\<close> is the call \<open>target.assign(source)\<close> with an lvalue \<open>source\<close>, whose
  parameter is copy-constructed at the address \<open>prm\<close>.
\<close>

definition assign :: "addr \<Rightarrow> addr \<Rightarrow> 'a store \<Rightarrow> 'a store" where
  "assign this prm h = swap this prm h"

definition call_assign ::
  "'a alloc \<Rightarrow> addr \<Rightarrow> addr \<Rightarrow> addr \<Rightarrow> 'a store \<Rightarrow> unit outcome \<times> 'a store" where
  "call_assign a this source prm h =
     (case TimeSeries_copy a (h source) of
        Value c \<Rightarrow> (Value (), assign this prm (h(prm := c)))
      | Throws e \<Rightarrow> (Throws e, h)
      | Undefined \<Rightarrow> (Undefined, h))"

text \<open>\<open>operator=(const TimeSeries& rhs)\<close>: \<open>_data\<close>, then \<open>_meta\<close>, then \<open>_isLoaded\<close>.\<close>

definition assign_copy :: "'a alloc \<Rightarrow> addr \<Rightarrow> addr \<Rightarrow> 'a store \<Rightarrow> unit outcome \<times> 'a store" where
  "assign_copy a this rhs h =
     (if this \<noteq> rhs then
        (let r1 = map_assign a (m_data (h this)) (m_data (h rhs));
             h1 = h(this := (h this)\<lparr> m_data := snd r1 \<rparr>)
         in if fst r1 \<noteq> Value () then (fst r1, h1)
            else
              (let r2 = string_assign a (m_meta (h1 this)) (m_meta (h1 rhs));
                   h2 = h1(this := (h1 this)\<lparr> m_meta := snd r2 \<rparr>)
               in if fst r2 \<noteq> Value () then (fst r2, h2)
                  else (Value (), h2(this := (h2 this)\<lparr> m_isLoaded := m_isLoaded (h2 rhs) \<rparr>))))
      else (Value (), h))"

text \<open>\<open>operator=(TimeSeries&& rhs)\<close>: moves \<open>_meta\<close> and \<open>_data\<close>, copies the flag and
  clears the flag of the source.\<close>

definition assign_move :: "addr \<Rightarrow> addr \<Rightarrow> 'a store \<Rightarrow> 'a store" where
  "assign_move this rhs h =
     (if this \<noteq> rhs then
        (let h1 = h(this := (h this)\<lparr> m_meta := m_meta (h rhs) \<rparr>,
                    rhs := (h rhs)\<lparr> m_meta := moved_from_string \<rparr>);
             h2 = h1(this := (h1 this)\<lparr> m_data := m_data (h1 rhs) \<rparr>,
                     rhs := (h1 rhs)\<lparr> m_data := moved_from_map \<rparr>);
             h3 = h2(this := (h2 this)\<lparr> m_isLoaded := m_isLoaded (h2 rhs) \<rparr>);
             h4 = h3(rhs := (h3 rhs)\<lparr> m_isLoaded := False \<rparr>)
         in h4)
      else h)"

section \<open>Example data\<close>

definition bar1 :: OHLC where
  "bar1 = \<lparr> open = 1, high = 2, low = 1, close = 2 \<rparr>"

definition bar2 :: OHLC where
  "bar2 = \<lparr> open = 2, high = 4, low = 2, close = 3 \<rparr>"

text \<open>An empty series, as \<open>TimeSeries<OHLC> ts1("ts1")\<close> of main.cpp.\<close>

definition ts_empty :: "OHLC TimeSeries" where
  "ts_empty = TimeSeries_default ''ts1''"

text \<open>Three insertions, out of order, and the series after them.\<close>

definition three_pairs :: "(time_t \<times> OHLC) list" where
  "three_pairs = [(160, bar2), (100, bar1), (220, bar1)]"

definition ts_three :: "OHLC TimeSeries" where
  "ts_three = snd (inserts three_pairs ts_empty)"

definition ts_one :: "OHLC TimeSeries" where
  "ts_one = snd (insert_ts (100, bar1) ts_empty)"

text \<open>A series with the timestamps 0 and \<open>LONG_MAX\<close>.\<close>

definition ts_far :: "OHLC TimeSeries" where
  "ts_far = snd (inserts [(9223372036854775807, bar2), (0, bar1)] ts_empty)"

text \<open>A loaded series with a long label, and a store holding two series.\<close>

definition ts_loaded :: "OHLC TimeSeries" where
  "ts_loaded = ts_one\<lparr> m_meta := ''minute bars of instrument 817289'', m_isLoaded := True \<rparr>"

definition store0 :: "OHLC store" where
  "store0 = (\<lambda>p. ts_empty)(1 := ts_loaded)"

text \<open>Series of the archived class with timestamps 100, 160, 220, and with 100 alone.\<close>

definition poly_three :: TimeSeries_poly where
  "poly_three = \<lparr> p_data = RBT.insert 220 3 (RBT.insert 160 2 (RBT.insert 100 1 RBT.empty)),
                  p_frequency = 0, p_meta = ''ts'', p_columns = [], p_isLoaded = False \<rparr>"

definition poly_one :: TimeSeries_poly where
  "poly_one = \<lparr> p_data = RBT.insert 100 1 RBT.empty,
                p_frequency = 0, p_meta = ''ts'', p_columns = [], p_isLoaded = False \<rparr>"

section \<open>Basic facts about the map\<close>

lemma entries_keys: "map fst (RBT.entries m) = RBT.keys m"
  by (simp add: RBT.keys_def_alt)

lemma keys_strictly_sorted: "sorted_wrt (<) (RBT.keys m)"
  by (simp add: strict_sorted_iff)

lemma keys_determined:
  "RBT.keys m = sorted_list_of_set (dom (RBT.lookup m))"
proof -
  have "sorted_list_of_set (set (RBT.keys m)) = RBT.keys m"
    by (rule sorted_list_of_set.idem_if_sorted_distinct) simp_all
  then show ?thesis
    by (simp add: RBT.lookup_keys)
qed

lemma map_size_card: "map_size m = card (dom (RBT.lookup m))"
proof -
  have "length (RBT.keys m) = card (set (RBT.keys m))"
    by (simp add: distinct_card)
  moreover have "length (RBT.entries m) = length (RBT.keys m)"
    by (simp add: RBT.keys_def_alt)
  ultimately show ?thesis
    by (simp add: map_size_def RBT.lookup_keys)
qed

lemma lookup_map_insert:
  "RBT.lookup (fst (map_insert (t, r) m)) =
     (case RBT.lookup m t of Some old \<Rightarrow> RBT.lookup m | None \<Rightarrow> (RBT.lookup m)(t \<mapsto> r))"
  by (simp add: map_insert_def split: option.splits)

section \<open>first and last\<close>

lemma hd_last_strict:
  "sorted_wrt (<) (ks :: int list) \<Longrightarrow> ks \<noteq> [] \<Longrightarrow>
     hd ks \<le> last ks \<and> (hd ks = last ks \<longleftrightarrow> length ks = 1)"
proof (cases ks)
  case Nil
  assume "ks \<noteq> []"
  with Nil show ?thesis by simp
next
  case (Cons k rest)
  assume s: "sorted_wrt (<) ks"
  show ?thesis
  proof (cases rest)
    case Nil
    with Cons show ?thesis by simp
  next
    case (Cons k' rest')
    with s \<open>ks = k # rest\<close> have "k < last rest"
      by auto
    with Cons \<open>ks = k # rest\<close> show ?thesis by auto
  qed
qed

lemma first_value:
  "RBT.entries (m_data ts) \<noteq> [] \<Longrightarrow>
     first ts = Value (from_time_t (hd (RBT.keys (m_data ts))))"
  by (cases "RBT.entries (m_data ts)")
     (simp_all add: first_def deref_def map_begin_def RBT.keys_def_alt)

lemma deref_rev:
  "xs \<noteq> [] \<Longrightarrow> deref (rev xs) = Value (last xs)"
  by (induction xs rule: rev_induct) (simp_all add: deref_def)

lemma last_value:
  assumes "RBT.entries (m_data ts) \<noteq> []"
  shows "last_ts ts = Value (from_time_t (last (RBT.keys (m_data ts))))"
proof -
  have "size_ts ts \<noteq> 0"
    using assms by (simp add: size_ts_def map_size_def)
  then show ?thesis
    using assms
    by (simp add: last_ts_def map_rbegin_def deref_rev RBT.keys_def_alt last_map)
qed

lemma wrap64_id: "- (2 ^ 63) \<le> x \<Longrightarrow> x < 2 ^ 63 \<Longrightarrow> wrap64 x = x"
  by (simp add: wrap64_def)

lemma from_time_t_supported:
  "ptime_supported t \<Longrightarrow> from_time_t t = t * 1000000"
  unfolding from_time_t_def ticks_per_second_def ptime_supported_def
  by (rule wrap64_id) simp_all

lemma from_time_t_mono:
  "ptime_supported a \<Longrightarrow> ptime_supported b \<Longrightarrow> from_time_t a \<le> from_time_t b \<longleftrightarrow> a \<le> b"
  by (simp add: from_time_t_supported)

lemma from_time_t_inj:
  "ptime_supported a \<Longrightarrow> ptime_supported b \<Longrightarrow> from_time_t a = from_time_t b \<longleftrightarrow> a = b"
  by (simp add: from_time_t_supported)

text \<open>
  Claim C1, as the code has it. On an empty series neither \<open>first()\<close> nor \<open>last()\<close>
  throws: both read \<open>_data.begin()->first\<close>, through the past-the-end iterator of the
  empty map, which has no defined behaviour. On a series that is not empty they return
  the conversions of the smallest and of the largest timestamp. When moreover every
  timestamp of the series lies in the range of times that \<open>ptime\<close> supports (from
  1400-01-01 to 9999-12-31), \<open>first() <= last()\<close>, and they are equal exactly when
  \<open>size()\<close> is 1.
\<close>

theorem first_last_ordered:
  "(isEmpty ts \<longrightarrow> first ts = Undefined \<and> last_ts ts = Undefined) \<and>
   (\<not> isEmpty ts \<longrightarrow>
      first ts = Value (from_time_t (hd (get_timestamps ts))) \<and>
      last_ts ts = Value (from_time_t (last (get_timestamps ts)))) \<and>
   (\<not> isEmpty ts \<and> (\<forall>t \<in> set (get_timestamps ts). ptime_supported t) \<longrightarrow>
      (\<exists>a b. first ts = Value a \<and> last_ts ts = Value b \<and>
             a \<le> b \<and> (a = b \<longleftrightarrow> size_ts ts = 1)))"
proof (intro conjI impI)
  assume "isEmpty ts"
  then have e: "RBT.entries (m_data ts) = []"
    by (simp add: isEmpty_def map_size_def)
  show "first ts = Undefined"
    by (simp add: first_def map_begin_def deref_def e)
  show "last_ts ts = Undefined"
    by (simp add: last_ts_def size_ts_def map_size_def map_begin_def deref_def e)
next
  assume "\<not> isEmpty ts"
  then have ne: "RBT.entries (m_data ts) \<noteq> []"
    by (simp add: isEmpty_def map_size_def)
  show "first ts = Value (from_time_t (hd (get_timestamps ts)))"
    by (simp add: first_value [OF ne] get_timestamps_def entries_keys)
  show "last_ts ts = Value (from_time_t (last (get_timestamps ts)))"
    by (simp add: last_value [OF ne] get_timestamps_def entries_keys)
next
  assume a: "\<not> isEmpty ts \<and> (\<forall>t \<in> set (get_timestamps ts). ptime_supported t)"
  then have ne: "RBT.entries (m_data ts) \<noteq> []"
    by (simp add: isEmpty_def map_size_def)
  then have kne: "RBT.keys (m_data ts) \<noteq> []"
    by (simp add: RBT.keys_def_alt)
  have len: "size_ts ts = length (RBT.keys (m_data ts))"
    by (simp add: size_ts_def map_size_def RBT.keys_def_alt)
  from a have sup: "\<forall>t \<in> set (RBT.keys (m_data ts)). ptime_supported t"
    by (simp add: get_timestamps_def entries_keys)
  from kne sup have h: "ptime_supported (hd (RBT.keys (m_data ts)))"
    by simp
  from kne sup have l: "ptime_supported (last (RBT.keys (m_data ts)))"
    by simp
  from hd_last_strict [OF keys_strictly_sorted kne]
  show "\<exists>a b. first ts = Value a \<and> last_ts ts = Value b \<and>
          a \<le> b \<and> (a = b \<longleftrightarrow> size_ts ts = 1)"
    by (simp add: first_value [OF ne] last_value [OF ne]
        from_time_t_mono [OF h l] from_time_t_inj [OF h l] len)
qed

text \<open>The theorem at the empty series and at the series with timestamps 100, 160, 220.\<close>

theorem first_last_ordered_witness:
  "(isEmpty ts_empty \<and> first ts_empty = Undefined \<and> last_ts ts_empty = Undefined) \<and>
   (\<not> isEmpty ts_three \<and> get_timestamps ts_three = [100, 160, 220] \<and>
      ptime_supported 100 \<and> ptime_supported 160 \<and> ptime_supported 220 \<and>
      first ts_three = Value (from_time_t 100) \<and>
      last_ts ts_three = Value (from_time_t 220) \<and>
      (\<exists>a b. first ts_three = Value a \<and> last_ts ts_three = Value b \<and>
             a \<le> b \<and> (a = b \<longleftrightarrow> size_ts ts_three = 1)))"
proof -
  have e: "isEmpty ts_empty" by code_simp
  have n: "\<not> isEmpty ts_three" by code_simp
  have g: "get_timestamps ts_three = [100, 160, 220]" by code_simp
  have s: "ptime_supported 100" "ptime_supported 160" "ptime_supported 220"
    by (simp_all add: ptime_supported_def)
  have r: "\<forall>t \<in> set (get_timestamps ts_three). ptime_supported t"
    using g s by simp
  have "first ts_empty = Undefined \<and> last_ts ts_empty = Undefined"
    using first_last_ordered [of ts_empty] e by blast
  moreover have "first ts_three = Value (from_time_t 100) \<and>
      last_ts ts_three = Value (from_time_t 220)"
    using first_last_ordered [of ts_three] n g by simp
  moreover have "\<exists>a b. first ts_three = Value a \<and> last_ts ts_three = Value b \<and>
             a \<le> b \<and> (a = b \<longleftrightarrow> size_ts ts_three = 1)"
    using first_last_ordered [of ts_three] n r by blast
  ultimately show ?thesis
    using e n g s by blast
qed

text \<open>
  Claim C1 as stated fails twice. On the empty series of main.cpp neither \<open>first()\<close>
  nor \<open>last()\<close> leaves by an exception. And on the series with the timestamps 0 and
  \<open>LONG_MAX\<close> the tick count of the larger timestamp wraps around to one second before
  the epoch, so that \<open>first()\<close> is later than \<open>last()\<close>.
\<close>

theorem first_last_counterexample:
  "isEmpty ts_empty \<and> \<not> throws (first ts_empty) \<and> \<not> throws (last_ts ts_empty) \<and>
   get_timestamps ts_far = [0, 9223372036854775807] \<and>
   first ts_far = Value 0 \<and> last_ts ts_far = Value (- 1000000)"
  by code_simp

section \<open>insert\<close>

lemma insert_fresh:
  assumes "RBT.lookup (m_data ts) t = None"
  shows "fst (insert_ts (t, r) ts) = True"
    and "RBT.lookup (m_data (snd (insert_ts (t, r) ts))) = (RBT.lookup (m_data ts))(t \<mapsto> r)"
    and "m_meta (snd (insert_ts (t, r) ts)) = m_meta ts"
    and "m_isLoaded (snd (insert_ts (t, r) ts)) = m_isLoaded ts"
  using assms by (simp_all add: insert_ts_def map_insert_def)

lemma insert_present:
  assumes "RBT.lookup (m_data ts) t = Some old"
  shows "insert_ts (t, r) ts = (False, ts)"
  using assms by (simp add: insert_ts_def map_insert_def)

lemma in_timestamps: "t \<in> set (get_timestamps ts) \<longleftrightarrow> RBT.lookup (m_data ts) t \<noteq> None"
proof -
  have "set (get_timestamps ts) = dom (RBT.lookup (m_data ts))"
    by (simp add: get_timestamps_def entries_keys RBT.lookup_keys)
  then show ?thesis by auto
qed

lemma size_insert_fresh:
  assumes "RBT.lookup (m_data ts) t = None"
  shows "size_ts (snd (insert_ts (t, r) ts)) = size_ts ts + 1"
proof -
  have "t \<notin> dom (RBT.lookup (m_data ts))"
    using assms by (simp add: domIff)
  then show ?thesis
    using insert_fresh(2) [OF assms, of r]
    by (simp add: size_ts_def map_size_card)
qed

text \<open>
  Claim C4. When the timestamp is not among the timestamps of the series, \<open>insert\<close>
  returns true, the record is then the one stored at that timestamp, every other lookup
  answers as before, the size grows by one and label and flag stay. When the timestamp
  is there already, \<open>insert\<close> returns false and the series is the same as before, so
  the record at that timestamp is not overwritten. \<open>insert_ts\<close> returns a flag and a
  series for every argument: its result has no error.
\<close>

theorem insert_ts_no_overwrite:
  "(t \<notin> set (get_timestamps ts) \<longrightarrow>
      fst (insert_ts (t, r) ts) = True \<and>
      subscript (snd (insert_ts (t, r) ts)) t = Value r \<and>
      (\<forall>t'. t' \<noteq> t \<longrightarrow> subscript (snd (insert_ts (t, r) ts)) t' = subscript ts t') \<and>
      size_ts (snd (insert_ts (t, r) ts)) = size_ts ts + 1 \<and>
      meta (snd (insert_ts (t, r) ts)) = meta ts \<and>
      isLoaded (snd (insert_ts (t, r) ts)) = isLoaded ts) \<and>
   (t \<in> set (get_timestamps ts) \<longrightarrow>
      fst (insert_ts (t, r) ts) = False \<and> snd (insert_ts (t, r) ts) = ts)"
proof (intro conjI impI)
  assume "t \<in> set (get_timestamps ts)"
  then obtain old where old: "RBT.lookup (m_data ts) t = Some old"
    by (auto simp: in_timestamps)
  show "fst (insert_ts (t, r) ts) = False" "snd (insert_ts (t, r) ts) = ts"
    by (simp_all add: insert_present [OF old])
next
  assume "t \<notin> set (get_timestamps ts)"
  then have none: "RBT.lookup (m_data ts) t = None"
    by (simp add: in_timestamps)
  show "fst (insert_ts (t, r) ts) = True"
    by (rule insert_fresh(1) [OF none])
  show "subscript (snd (insert_ts (t, r) ts)) t = Value r"
    by (simp add: subscript_def map_at_def insert_fresh(2) [OF none])
  show "\<forall>t'. t' \<noteq> t \<longrightarrow> subscript (snd (insert_ts (t, r) ts)) t' = subscript ts t'"
    by (simp add: subscript_def map_at_def insert_fresh(2) [OF none])
  show "size_ts (snd (insert_ts (t, r) ts)) = size_ts ts + 1"
    by (rule size_insert_fresh [OF none])
  show "meta (snd (insert_ts (t, r) ts)) = meta ts"
    by (simp add: meta_def insert_fresh(3) [OF none])
  show "isLoaded (snd (insert_ts (t, r) ts)) = isLoaded ts"
    by (simp add: isLoaded_def insert_fresh(4) [OF none])
qed

text \<open>
  The theorem at timestamp 100: inserted into the empty series, and offered again, with
  another record, to the series that holds it.
\<close>

theorem insert_ts_no_overwrite_witness:
  "(100 \<notin> set (get_timestamps ts_empty) \<and>
      fst (insert_ts (100, bar1) ts_empty) = True \<and>
      subscript (snd (insert_ts (100, bar1) ts_empty)) 100 = Value bar1 \<and>
      size_ts (snd (insert_ts (100, bar1) ts_empty)) = size_ts ts_empty + 1) \<and>
   (100 \<in> set (get_timestamps ts_one) \<and>
      fst (insert_ts (100, bar2) ts_one) = False \<and>
      snd (insert_ts (100, bar2) ts_one) = ts_one)"
proof -
  have a: "100 \<notin> set (get_timestamps ts_empty)" by code_simp
  have b: "100 \<in> set (get_timestamps ts_one)" by code_simp
  show ?thesis
    using insert_ts_no_overwrite [of 100 ts_empty bar1]
      insert_ts_no_overwrite [of 100 ts_one bar2] a b
    by simp
qed

section \<open>get_timestamps and size\<close>

lemma dom_insert_ts:
  "dom (RBT.lookup (m_data (snd (insert_ts val ts)))) = insert (fst val) (dom (RBT.lookup (m_data ts)))"
  by (cases "RBT.lookup (m_data ts) (fst val)")
     (auto simp: insert_ts_def map_insert_def)

lemma dom_inserts:
  "dom (RBT.lookup (m_data (snd (inserts ps ts)))) = dom (RBT.lookup (m_data ts)) \<union> fst ` set ps"
proof (induction ps arbitrary: ts)
  case Nil
  show ?case by simp
next
  case (Cons val ps)
  show ?case
    by (simp add: Let_def Cons.IH dom_insert_ts)
qed

lemma flags_inserts:
  "distinct (map fst ps) \<Longrightarrow> fst ` set ps \<inter> dom (RBT.lookup (m_data ts)) = {} \<Longrightarrow>
     fst (inserts ps ts) = replicate (length ps) True"
proof (induction ps arbitrary: ts)
  case Nil
  show ?case by simp
next
  case (Cons val ps)
  from Cons.prems have none: "RBT.lookup (m_data ts) (fst val) = None"
    by (auto simp: domIff)
  have "fst (insert_ts val ts) = True"
    using insert_fresh(1) [OF none, of "snd val"] by simp
  moreover have "fst ` set ps \<inter> dom (RBT.lookup (m_data (snd (insert_ts val ts)))) = {}"
    using Cons.prems by (auto simp: dom_insert_ts)
  ultimately show ?case
    using Cons.prems Cons.IH [of "snd (insert_ts val ts)"] by (simp add: Let_def)
qed

lemma timestamps_determined:
  "get_timestamps ts = sorted_list_of_set (dom (RBT.lookup (m_data ts)))"
  by (simp add: get_timestamps_def entries_keys keys_determined)

text \<open>
  Claim C5. Pairs with unique timestamps are inserted, in any order, into a series just
  constructed. Every insertion returns true; \<open>get_timestamps()\<close> then returns exactly
  those timestamps in ascending order, and \<open>size()\<close> is their number, which is the
  number of distinct timestamps inserted. The vector is returned by value: it is a list
  of its own, which no later change of the series reaches.
\<close>

theorem timestamps_sorted_snapshot:
  "distinct (map fst ps) \<longrightarrow>
     fst (inserts ps (TimeSeries_default label)) = replicate (length ps) True \<and>
     get_timestamps (snd (inserts ps (TimeSeries_default label))) = sort (map fst ps) \<and>
     size_ts (snd (inserts ps (TimeSeries_default label))) = length ps \<and>
     size_ts (snd (inserts ps (TimeSeries_default label))) = card (fst ` set ps)"
proof
  assume d: "distinct (map fst ps)"
  have dom0: "dom (RBT.lookup (m_data (TimeSeries_default label :: 'a TimeSeries))) = {}"
    by (simp add: TimeSeries_default_def)
  have dom1: "dom (RBT.lookup (m_data (snd (inserts ps (TimeSeries_default label))))) = set (map fst ps)"
    by (simp add: dom_inserts dom0)
  have "fst (inserts ps (TimeSeries_default label)) = replicate (length ps) True"
    by (rule flags_inserts [OF d]) (simp add: dom0)
  moreover have "get_timestamps (snd (inserts ps (TimeSeries_default label))) = sort (map fst ps)"
    using d by (simp only: timestamps_determined dom1 sorted_list_of_set_sort_remdups distinct_remdups_id)
  moreover have "size_ts (snd (inserts ps (TimeSeries_default label))) = card (fst ` set ps)"
    by (simp only: size_ts_def map_size_card dom1 set_map)
  moreover have "card (fst ` set ps) = length ps"
    using d distinct_card [of "map fst ps"] by simp
  ultimately show "fst (inserts ps (TimeSeries_default label)) = replicate (length ps) True \<and>
     get_timestamps (snd (inserts ps (TimeSeries_default label))) = sort (map fst ps) \<and>
     size_ts (snd (inserts ps (TimeSeries_default label))) = length ps \<and>
     size_ts (snd (inserts ps (TimeSeries_default label))) = card (fst ` set ps)"
    by simp
qed

text \<open>The theorem at the three insertions with timestamps 160, 100, 220.\<close>

theorem timestamps_sorted_snapshot_witness:
  "distinct (map fst three_pairs) \<and>
   get_timestamps (snd (inserts three_pairs (TimeSeries_default ''ts1''))) = [100, 160, 220] \<and>
   size_ts (snd (inserts three_pairs (TimeSeries_default ''ts1''))) = 3"
proof -
  have d: "distinct (map fst three_pairs)"
    by (simp add: three_pairs_def)
  have s: "sort (map fst three_pairs) = [100, 160, 220]"
    by (simp add: three_pairs_def)
  have l: "length three_pairs = 3"
    by (simp add: three_pairs_def)
  show ?thesis
    using timestamps_sorted_snapshot [of three_pairs "''ts1''"] d s l by simp
qed

section \<open>Traversals of the two memberspaces\<close>

lemma traverse_dangling:
  "(\<And>p. read (f p) = Undefined) \<Longrightarrow> it \<noteq> [] \<Longrightarrow> traverse f it [] = Undefined"
  by (cases it) (simp_all add: bind_def)

lemma views_dangling:
  "\<not> isEmpty ts \<Longrightarrow>
     fst (Values_traverse ts) = Undefined \<and> fst (TimeStamps_traverse ts) = Undefined"
  by (simp add: isEmpty_def map_size_def Values_traverse_def TimeStamps_traverse_def
      Values_begin_def Values_end_def TimeStamps_begin_def TimeStamps_end_def
      begin_ts_def end_ts_def map_begin_def map_end_def
      traverse_dangling getDataPoint_def getTimeStamp_def read_def)

text \<open>
  Claim C6 says that a full traversal of \<open>values\<close> yields the N records of a series of
  size N, and a full traversal of \<open>timestamps\<close> its N timestamps, in ascending order.
  The code does not do that: on the series of size 3 with timestamps 100, 160 and 220,
  each element is read through a reference into a temporary that is destroyed already,
  and neither traversal has a defined result.
\<close>

theorem views_traversal_undefined:
  "size_ts ts_three = 3 \<and>
   fst (Values_traverse ts_three) = Undefined \<and>
   fst (TimeStamps_traverse ts_three) = Undefined"
  by code_simp

section \<open>Lookup by timestamp\<close>

text \<open>
  Claim C8, as the code has it. When the series has an entry with the timestamp,
  \<open>operator[]\<close> returns the record of that entry. When the timestamp is not among the
  timestamps of the series, \<open>operator[]\<close> leaves by \<open>std::out_of_range\<close>. The lookup
  only reads the series.
\<close>

theorem lookup_present_absent:
  "(\<forall>v. (t, v) \<in> set (RBT.entries (m_data ts)) \<longrightarrow> subscript ts t = Value v) \<and>
   (t \<notin> set (get_timestamps ts) \<longrightarrow> subscript ts t = Throws out_of_range)"
proof (intro conjI allI impI)
  fix v assume "(t, v) \<in> set (RBT.entries (m_data ts))"
  then have "RBT.lookup (m_data ts) t = Some v"
    by (simp add: RBT.lookup_in_tree)
  then show "subscript ts t = Value v"
    by (simp add: subscript_def map_at_def)
next
  assume "t \<notin> set (get_timestamps ts)"
  then have "RBT.lookup (m_data ts) t = None"
    by (simp add: in_timestamps)
  then show "subscript ts t = Throws out_of_range"
    by (simp add: subscript_def map_at_def)
qed

text \<open>The theorem at the series holding timestamp 100 alone: at 100 and at 160.\<close>

theorem lookup_present_absent_witness:
  "((100, bar1) \<in> set (RBT.entries (m_data ts_one)) \<and> subscript ts_one 100 = Value bar1) \<and>
   (160 \<notin> set (get_timestamps ts_one) \<and> subscript ts_one 160 = Throws out_of_range)"
proof -
  have a: "RBT.entries (m_data ts_one) = [(100, bar1)]" by code_simp
  have b: "160 \<notin> set (get_timestamps ts_one)" by code_simp
  show ?thesis
    using lookup_present_absent [of 100 ts_one] lookup_present_absent [of 160 ts_one] a b
    by simp
qed

text \<open>
  Claim C8 as stated fails: at a timestamp that is not in the series \<open>operator[]\<close>
  reports the absence by an exception.
\<close>

theorem subscript_absent_counterexample:
  "160 \<notin> set (get_timestamps ts_one) \<and> subscript ts_one 160 = Throws out_of_range \<and>
   throws (subscript ts_one 160)"
  by code_simp

section \<open>Records from a vector of values\<close>

text \<open>
  Claim C9, as the code has it. Each constructor from a vector throws
  \<open>DataPointException(1000)\<close> ("Vector initialization failed. Index out of range.") when
  the vector has fewer values than the schema has fields: 4 for \<open>OHLC\<close>, 5 for \<open>OHLCV\<close>,
  2 for \<open>BidAsk\<close>. With enough values \<open>OHLC\<close> takes open, high, low, close from positions
  0 to 3 and \<open>BidAsk\<close> takes bid and ask from positions 0 and 1. \<open>OHLCV\<close> takes open,
  high, low, close from positions 0 to 3 and the volume from position 4, with its
  fraction dropped, provided that this whole number fits the 32-bit \<open>int\<close>; when it does
  not fit, the conversion, and with it the construction, has no defined behaviour.
\<close>

theorem record_init:
  "OHLC_init init =
     (if length init < 4 then Throws (DataPointException 1000)
      else Value \<lparr> open = init ! 0, high = init ! 1, low = init ! 2, close = init ! 3 \<rparr>) \<and>
   OHLCV_init init =
     (if length init < 5 then Throws (DataPointException 1000)
      else if fits_int (trunc_double (init ! 4))
      then Value \<lparr> volume = trunc_double (init ! 4), v_open = init ! 0, v_high = init ! 1,
                   v_low = init ! 2, v_close = init ! 3 \<rparr>
      else Undefined) \<and>
   BidAsk_init init =
     (if length init < 2 then Throws (DataPointException 1000)
      else Value \<lparr> bid = init ! 0, ask = init ! 1 \<rparr>)"
proof (intro conjI)
  show "OHLC_init init =
     (if length init < 4 then Throws (DataPointException 1000)
      else Value \<lparr> open = init ! 0, high = init ! 1, low = init ! 2, close = init ! 3 \<rparr>)"
    by (auto simp: OHLC_init_def vector_at_def bind_def catch_out_of_range_def)
  show "OHLCV_init init =
     (if length init < 5 then Throws (DataPointException 1000)
      else if fits_int (trunc_double (init ! 4))
      then Value \<lparr> volume = trunc_double (init ! 4), v_open = init ! 0, v_high = init ! 1,
                   v_low = init ! 2, v_close = init ! 3 \<rparr>
      else Undefined)"
    by (auto simp: OHLCV_init_def vector_at_def bind_def catch_out_of_range_def double_to_int_def)
  show "BidAsk_init init =
     (if length init < 2 then Throws (DataPointException 1000)
      else Value \<lparr> bid = init ! 0, ask = init ! 1 \<rparr>)"
    by (auto simp: BidAsk_init_def vector_at_def bind_def catch_out_of_range_def)
qed

text \<open>The theorem at vectors that are too short and at vectors that are long enough.\<close>

theorem record_init_witness:
  "OHLC_init [1, 2, 3] = Throws (DataPointException 1000) \<and>
   OHLC_init [1, 2, 3, 4] = Value \<lparr> open = 1, high = 2, low = 3, close = 4 \<rparr> \<and>
   OHLCV_init [1, 2, 3, 4] = Throws (DataPointException 1000) \<and>
   OHLCV_init [1, 2, 3, 4, 5.5] =
     Value \<lparr> volume = 5, v_open = 1, v_high = 2, v_low = 3, v_close = 4 \<rparr> \<and>
   BidAsk_init [1] = Throws (DataPointException 1000) \<and>
   BidAsk_init [1, 2] = Value \<lparr> bid = 1, ask = 2 \<rparr>"
  using record_init [of "[1, 2, 3]"] record_init [of "[1, 2, 3, 4]"]
    record_init [of "[1, 2, 3, 4, 5.5]"] record_init [of "[1]"] record_init [of "[1, 2]"]
  by (simp add: fits_int_def trunc_double_def)

text \<open>
  Claim C9 as stated fails for \<open>OHLCV\<close>: the vector has five values, and the fifth,
  2147483648, does not fit the \<open>int\<close> that holds the volume.
\<close>

theorem record_init_counterexample:
  "length [1, 2, 3, 4, 2147483648 :: double] = 5 \<and>
   OHLCV_init [1, 2, 3, 4, 2147483648] = Undefined"
  by (simp add: OHLCV_init_def vector_at_def bind_def catch_out_of_range_def
      double_to_int_def fits_int_def trunc_double_def)

section \<open>Column names\<close>

text \<open>
  Claim C10. For a type derived from \<open>DataPoint\<close> that is none of \<open>OHLC\<close>, \<open>OHLCV\<close> and
  \<open>BidAsk\<close>, \<open>dp_names\<close> is the list whose one element is the empty string, and so is
  \<open>column_names()\<close> of a series of that type: a series can be instantiated beyond the
  three schemas that have names.
\<close>

theorem dp_names_generic:
  "T \<notin> {OHLC_type, OHLCV_type, BidAsk_type} \<longrightarrow>
     dp_names T = [''''] \<and> column_names T ts = [''''] \<and> length (column_names T ts) = 1"
  by (cases T) (simp_all add: column_names_def)

text \<open>The theorem at a derived struct named Tick.\<close>

theorem dp_names_generic_witness:
  "Derived_type ''Tick'' \<notin> {OHLC_type, OHLCV_type, BidAsk_type} \<and>
   dp_names (Derived_type ''Tick'') = [''''] \<and>
   column_names (Derived_type ''Tick'') ts_empty = ['''']"
  using dp_names_generic [of "Derived_type ''Tick''" ts_empty] by simp

section \<open>frequency\<close>

text \<open>
  Claim C3, as the code has it. \<open>frequency()\<close> of the archived class is a stub: for
  every series it returns the default duration, which is zero seconds, and it never
  throws, whatever the number of entries. (The other two declarations compute nothing
  either: the archived template has a body without a return statement, and in the
  template of lib/timeseries.hpp the member is commented out, "tbc".)
\<close>

theorem frequency_stub:
  "frequency ts = Value (seconds 0) \<and> \<not> throws (frequency ts)"
  by (simp add: frequency_def default_time_duration_def seconds_def throws_def)

text \<open>The theorem at the series with three timestamps and with one.\<close>

theorem frequency_stub_witness:
  "frequency poly_three = Value (seconds 0) \<and> \<not> throws (frequency poly_one)"
  using frequency_stub [of poly_three] frequency_stub [of poly_one] by blast

text \<open>
  Claim C3 as stated fails: with timestamps 100, 160 and 220 the result is not 60
  seconds, and with the single timestamp 100 the call does not fail.
\<close>

theorem frequency_counterexample:
  "timestamps_poly poly_three = [100, 160, 220] \<and> frequency poly_three \<noteq> Value (seconds 60) \<and>
   timestamps_poly poly_one = [100] \<and> \<not> throws (frequency poly_one)"
  by code_simp

section \<open>Moving\<close>

lemma entries_empty: "RBT.entries RBT.empty = []"
  using RBT.keys_def_alt [of RBT.empty] by simp

lemma isEmpty_moved: "m_data ts = moved_from_map \<Longrightarrow> isEmpty ts"
  by (simp add: isEmpty_def map_size_def moved_from_map_def entries_empty)

lemma assign_move_distinct:
  assumes "this \<noteq> rhs"
  shows "assign_move this rhs h this = h rhs"
    and "assign_move this rhs h rhs =
           \<lparr> m_data = moved_from_map, m_meta = moved_from_string, m_isLoaded = False \<rparr>"
    and "p \<noteq> this \<Longrightarrow> p \<noteq> rhs \<Longrightarrow> assign_move this rhs h p = h p"
  using assms by (simp_all add: assign_move_def Let_def)

text \<open>
  Claim C7. After move construction, and after move assignment to another object, the
  source is empty and its flag \<open>loaded\<close> is false, and the destination holds the map,
  the label and the flag that the source held before. (Move assignment of an object to
  itself is guarded by \<open>this != &rhs\<close> and changes nothing.)
\<close>

theorem move_empties_source:
  "(isEmpty (snd (TimeSeries_move ts)) \<and> \<not> isLoaded (snd (TimeSeries_move ts)) \<and>
    m_data (fst (TimeSeries_move ts)) = m_data ts \<and>
    meta (fst (TimeSeries_move ts)) = meta ts \<and>
    isLoaded (fst (TimeSeries_move ts)) = isLoaded ts) \<and>
   (this \<noteq> rhs \<longrightarrow>
      isEmpty (assign_move this rhs h rhs) \<and> \<not> isLoaded (assign_move this rhs h rhs) \<and>
      m_data (assign_move this rhs h this) = m_data (h rhs) \<and>
      meta (assign_move this rhs h this) = meta (h rhs) \<and>
      isLoaded (assign_move this rhs h this) = isLoaded (h rhs))"
proof (intro conjI impI)
  show "isEmpty (snd (TimeSeries_move ts))"
    by (rule isEmpty_moved) (simp add: TimeSeries_move_def Let_def)
  show "\<not> isLoaded (snd (TimeSeries_move ts))"
    by (simp add: TimeSeries_move_def Let_def isLoaded_def)
  show "m_data (fst (TimeSeries_move ts)) = m_data ts"
    by (simp add: TimeSeries_move_def Let_def)
  show "meta (fst (TimeSeries_move ts)) = meta ts"
    by (simp add: TimeSeries_move_def Let_def meta_def)
  show "isLoaded (fst (TimeSeries_move ts)) = isLoaded ts"
    by (simp add: TimeSeries_move_def Let_def isLoaded_def)
next
  assume d: "this \<noteq> rhs"
  show "isEmpty (assign_move this rhs h rhs)"
    by (rule isEmpty_moved) (simp add: assign_move_distinct(2) [OF d])
  show "\<not> isLoaded (assign_move this rhs h rhs)"
    by (simp add: isLoaded_def assign_move_distinct(2) [OF d])
  show "m_data (assign_move this rhs h this) = m_data (h rhs)"
    by (simp add: assign_move_distinct(1) [OF d])
  show "meta (assign_move this rhs h this) = meta (h rhs)"
    by (simp add: assign_move_distinct(1) [OF d])
  show "isLoaded (assign_move this rhs h this) = isLoaded (h rhs)"
    by (simp add: assign_move_distinct(1) [OF d])
qed

text \<open>The theorem at a loaded series with one entry, moved from address 1 to address 0.\<close>

theorem move_empties_source_witness:
  "(0::nat) \<noteq> 1 \<and>
   isEmpty (assign_move 0 1 store0 1) \<and> \<not> isLoaded (assign_move 0 1 store0 1) \<and>
   m_data (assign_move 0 1 store0 0) = m_data ts_loaded \<and>
   meta (assign_move 0 1 store0 0) = meta ts_loaded \<and>
   \<not> isEmpty ts_loaded \<and> isLoaded ts_loaded"
proof -
  have a: "store0 1 = ts_loaded" by (simp add: store0_def)
  have b: "\<not> isEmpty ts_loaded" by code_simp
  have c: "isLoaded ts_loaded" by code_simp
  show ?thesis
    using move_empties_source [of ts_loaded 0 1 store0] a b c by simp
qed

section \<open>Exception safety of assignment\<close>

lemma swap_distinct:
  assumes "a \<noteq> b"
  shows "swap a b h a = h b" and "swap a b h b = h a"
    and "p \<noteq> a \<Longrightarrow> p \<noteq> b \<Longrightarrow> swap a b h p = h p"
  using assms by (simp_all add: swap_def Let_def)

lemma swap_same: "swap a a h = h"
  by (simp add: swap_def Let_def fun_eq_iff)

lemma TimeSeries_copy_cases:
  "TimeSeries_copy a ts = (case a of Enough \<Rightarrow> Value ts | _ \<Rightarrow> Throws bad_alloc)"
  by (cases a) (simp_all add: TimeSeries_copy_def map_copy_def string_copy_def bind_def)

lemma call_assign_cases:
  assumes "prm \<noteq> this"
  shows "call_assign Enough this source prm h = (Value (), swap this prm (h(prm := h source)))"
    and "a \<noteq> Enough \<Longrightarrow> call_assign a this source prm h = (Throws bad_alloc, h)"
  by (cases a; simp add: call_assign_def TimeSeries_copy_cases assign_def)+

lemma assign_copy_enough:
  "snd (assign_copy Enough this rhs h) this = h rhs \<and> fst (assign_copy Enough this rhs h) = Value ()"
  by (simp add: assign_copy_def map_assign_def string_assign_def Let_def)

lemma assign_copy_success:
  "fst (assign_copy a this rhs h) = Value () \<Longrightarrow> snd (assign_copy a this rhs h) this = h rhs"
  by (cases a) (simp_all add: assign_copy_def map_assign_def string_assign_def Let_def split: if_splits)

lemma assign_copy_no_string:
  "this \<noteq> rhs \<Longrightarrow>
     assign_copy No_string this rhs h =
       (Throws bad_alloc, h(this := (h this)\<lparr> m_data := m_data (h rhs) \<rparr>))"
  by (simp add: assign_copy_def map_assign_def string_assign_def Let_def)

text \<open>
  Claim C2, as the code has it. \<open>assign\<close> (copy, then swap) either succeeds, and the
  target then holds the whole state of the source (map, label and flag), or it throws
  \<open>std::bad_alloc\<close> while the parameter is copied, and the store is as before. Move
  assignment always succeeds and gives the target the whole state of the source; on
  the object itself it changes nothing. \<open>operator=(const TimeSeries&)\<close> gives the
  target the whole state of the source whenever it returns, and it returns when there
  is enough memory; it is only basic exception safe, as its comment says: when the
  copy of the label fails, the target has the map of the source already and keeps its
  own label and flag.
\<close>

theorem assignment_exception_safety:
  "(prm \<noteq> this \<longrightarrow>
      (fst (call_assign a this source prm h) = Value () \<and>
         snd (call_assign a this source prm h) this = h source) \<or>
      (fst (call_assign a this source prm h) = Throws bad_alloc \<and>
         snd (call_assign a this source prm h) = h)) \<and>
   (this \<noteq> rhs \<longrightarrow> assign_move this rhs h this = h rhs) \<and>
   assign_move this this h = h \<and>
   (fst (assign_copy a this rhs h) = Value () \<longrightarrow>
      snd (assign_copy a this rhs h) this = h rhs) \<and>
   fst (assign_copy Enough this rhs h) = Value () \<and>
   (this \<noteq> rhs \<longrightarrow>
      assign_copy No_string this rhs h =
        (Throws bad_alloc, h(this := (h this)\<lparr> m_data := m_data (h rhs) \<rparr>)))"
proof (intro conjI impI)
  assume d: "prm \<noteq> this"
  show "(fst (call_assign a this source prm h) = Value () \<and>
         snd (call_assign a this source prm h) this = h source) \<or>
      (fst (call_assign a this source prm h) = Throws bad_alloc \<and>
         snd (call_assign a this source prm h) = h)"
  proof (cases "a = Enough")
    case True
    have "this \<noteq> prm" using d by simp
    then show ?thesis
      by (simp add: True call_assign_cases(1) [OF d] swap_distinct(1))
  next
    case False
    then show ?thesis
      by (simp add: call_assign_cases(2) [OF d])
  qed
next
  assume "this \<noteq> rhs"
  then show "assign_move this rhs h this = h rhs"
    by (rule assign_move_distinct(1))
next
  show "assign_move this this h = h"
    by (simp add: assign_move_def)
next
  assume "fst (assign_copy a this rhs h) = Value ()"
  then show "snd (assign_copy a this rhs h) this = h rhs"
    by (rule assign_copy_success)
next
  show "fst (assign_copy Enough this rhs h) = Value ()"
    by (simp add: assign_copy_enough)
next
  assume "this \<noteq> rhs"
  then show "assign_copy No_string this rhs h =
        (Throws bad_alloc, h(this := (h this)\<lparr> m_data := m_data (h rhs) \<rparr>))"
    by (rule assign_copy_no_string)
qed

text \<open>
  The theorem at a store with an empty series at address 0 and a loaded series at
  address 1; the parameter of \<open>assign\<close> is built at address 2.
\<close>

theorem assignment_exception_safety_witness:
  "(2::nat) \<noteq> 0 \<and>
   fst (call_assign Enough 0 1 2 store0) = Value () \<and>
   snd (call_assign Enough 0 1 2 store0) 0 = store0 1 \<and>
   fst (call_assign No_string 0 1 2 store0) = Throws bad_alloc \<and>
   snd (call_assign No_string 0 1 2 store0) = store0 \<and>
   (0::nat) \<noteq> 1 \<and>
   assign_move 0 1 store0 0 = store0 1 \<and>
   fst (assign_copy Enough 0 1 store0) = Value () \<and>
   snd (assign_copy Enough 0 1 store0) 0 = store0 1"
proof -
  have a: "fst (call_assign Enough 0 1 2 store0) = Value ()"
    by (simp add: call_assign_def TimeSeries_copy_def map_copy_def string_copy_def bind_def)
  have b: "fst (call_assign No_string 0 1 2 store0) = Throws bad_alloc"
    by (simp add: call_assign_def TimeSeries_copy_def map_copy_def string_copy_def bind_def)
  show ?thesis
    using assignment_exception_safety [of 2 0 Enough 1 store0 1]
      assignment_exception_safety [of 2 0 No_string 1 store0 1] a b
    by simp
qed

text \<open>
  Claim C2 as stated fails for \<open>operator=(const TimeSeries&)\<close>: the empty series
  labelled ts1 is assigned the loaded series with one entry and a long label, and the
  copy of the label runs out of memory. The assignment throws, and the target is neither
  what it was nor what the source is: it has one entry, the label ts1 and the flag false.
\<close>

theorem assign_copy_partial_counterexample:
  "fst (assign_copy No_string 0 1 store0) = Throws bad_alloc \<and>
   size_ts (store0 0) = 0 \<and> meta (store0 0) = ''ts1'' \<and> isLoaded (store0 0) = False \<and>
   size_ts (store0 1) = 1 \<and> meta (store0 1) = ''minute bars of instrument 817289'' \<and>
   isLoaded (store0 1) = True \<and>
   size_ts (snd (assign_copy No_string 0 1 store0) 0) = 1 \<and>
   meta (snd (assign_copy No_string 0 1 store0) 0) = ''ts1'' \<and>
   isLoaded (snd (assign_copy No_string 0 1 store0) 0) = False"
  by code_simp

end
